theory Spec2Isabelle
  imports Main "HOL-Library.Sublist"
begin

section \<open>Data model\<close>

text \<open>
  The bot (class \<open>Bot\<close>) talks to a chat platform through the client library. The
  objects the library hands out are modelled by their fields the bot reads: a role has an
  identifier and a name, a guild member has the identifier of its user, the user name and
  the roles it holds, a guild has its identifier, its members and its role catalog, a
  message has its text, its author and the guild it was sent in (\<open>None\<close> for a private
  message). The \<open>roles\<close> of a member are what the getter \<open>member.roles\<close> lists; for a
  member of a real guild that includes the role \<open>@everyone\<close>, the role of the catalog
  whose identifier is the guild's.
\<close>

datatype role = Role (role_id: string) (role_name: string)

record member =
  member_id :: string
  username :: string
  roles :: "role list"

record guild =
  guild_id :: string
  members :: "member list"
  g_roles :: "role list"

record message =
  content :: string
  author_bot :: bool
  author_username :: string
  msg_guild :: "guild option"

text \<open>
  A thrown JavaScript error. \<open>TypeError\<close> is what reading a property of \<open>null\<close> or
  \<open>undefined\<close> throws, \<open>Rejected\<close> is a platform call whose promise rejects. Either
  carries its \<open>message\<close>; for a \<open>TypeError\<close> the model's text names the property
  read, not the engine's exact wording.
\<close>

datatype error = TypeError string | Rejected string

fun err_message :: "error \<Rightarrow> string" where
  "err_message (TypeError s) = s"
| "err_message (Rejected s) = s"

text \<open>\<open>BotAction\<close>: a command handler gets the guild, the message and the arguments and
  resolves to an outcome string or fails. Command bodies are black boxes: what they do to
  the world besides returning is outside this model.\<close>

type_synonym BotAction = "guild option \<Rightarrow> message \<Rightarrow> string list \<Rightarrow> error + string"

text \<open>\<open>CommandProvision\<close> (\<open>lib/access\<close>): a named function that wraps a handler.\<close>

record CommandProvision =
  prov_name :: string
  prov_apply :: "BotAction \<Rightarrow> BotAction"

text \<open>Entries of the process log (\<open>log.error\<close>, \<open>log.cmd\<close>).\<close>

datatype log_entry = LogError string | LogCmd string

text \<open>
  Modelled from the spec: \<open>lib/messages\<close> (\<open>rolesUpdatedLogMessage\<close>,
  \<open>commandUseLogMessage\<close>) is not among the sources. An audit log entry carries the actor,
  the action tag and the free-text result; the timestamp is left out. Whether building the
  entry throws is left to the platform oracle below.
\<close>

datatype embed =
  RolesUpdatedLog "member option" string string
| CommandUseLog message string

text \<open>The platform calls the bot issues, in the order it issues them.\<close>

datatype call =
  AddRoles string "role list" string
| RemoveRoles string "role list" string
| Delete message
| Send string string

text \<open>
  The collaborators' failures are a parameter: for each platform call (and each message
  builder of \<open>lib/messages\<close>) the oracle says whether it fails on the given arguments,
  and with which error message.
\<close>

record platform =
  addRoles_err :: "member \<Rightarrow> role list \<Rightarrow> string option"
  removeRoles_err :: "member \<Rightarrow> role list \<Rightarrow> string option"
  delete_err :: "message \<Rightarrow> string option"
  send_err :: "message \<Rightarrow> string \<Rightarrow> string option"
  rolesUpdatedLogMessage_err :: "member option \<Rightarrow> string \<Rightarrow> string \<Rightarrow> string option"
  commandUseLogMessage_err :: "message \<Rightarrow> string \<Rightarrow> string option"

text \<open>
  The state of the bot and of the world it acts on: \<open>_guild\<close> and \<open>_logChannel\<close> are
  undefined until the client is ready; the log channel is modelled by the embeds sent to
  it; \<open>_commands\<close> and \<open>_descriptions\<close> are the two maps of the registry;
  \<open>REQUEST_COUNT\<close> is the static counter; \<open>calls\<close> and \<open>logged\<close> record the
  platform calls issued and the process log; \<open>exited\<close> is the status \<open>process.exit\<close>
  was called with.
\<close>

record bot =
  p_guild :: "guild option"
  p_logChannel :: "embed list option"
  p_commands :: "string \<rightharpoonup> BotAction"
  p_descriptions :: "string \<rightharpoonup> string"
  REQUEST_COUNT :: nat
  calls :: "call list"
  logged :: "log_entry list"
  exited :: "int option"

text \<open>An awaited computation: the value it resolves to or the error it throws, and the
  state it leaves.\<close>

type_synonym 'a outcome = "(error + 'a) \<times> bot"

section \<open>The platform\<close>

text \<open>
  A successful \<open>member.addRoles\<close> leaves the member with the roles it held and the new
  ones; a successful \<open>member.removeRoles\<close> leaves it with the roles it held but the
  ones removed. Adding a role already held and removing one not held change nothing. The
  role \<open>@everyone\<close> is never removed: it is not among the roles the platform stores for
  the member, the getter adds it.
\<close>

definition is_everyone :: "guild \<Rightarrow> role \<Rightarrow> bool" where
  "is_everyone g r = (role_id r = guild_id g)"

definition api_addRoles :: "member \<Rightarrow> role list \<Rightarrow> member" where
  "api_addRoles m rs = m\<lparr>roles := roles m @ filter (\<lambda>r. r \<notin> set (roles m)) (remdups rs)\<rparr>"

definition api_removeRoles :: "guild \<Rightarrow> member \<Rightarrow> role list \<Rightarrow> member" where
  "api_removeRoles g m rs = m\<lparr>roles := filter (\<lambda>r. is_everyone g r \<or> r \<notin> set rs) (roles m)\<rparr>"

definition find_member :: "string \<Rightarrow> guild \<Rightarrow> member option" where
  "find_member i g = List.find (\<lambda>m. member_id m = i) (members g)"

text \<open>The platform updates the member object that \<open>find\<close> returned, in place: the first
  member of the collection with that identifier.\<close>

fun update_first :: "string \<Rightarrow> member \<Rightarrow> member list \<Rightarrow> member list" where
  "update_first i m' [] = []"
| "update_first i m' (m # ms) = (if member_id m = i then m' # ms else m # update_first i m' ms)"

definition set_member :: "string \<Rightarrow> member \<Rightarrow> bot \<Rightarrow> bot" where
  "set_member i m' b =
     (case p_guild b of
        None \<Rightarrow> b
      | Some g \<Rightarrow> b\<lparr>p_guild := Some (g\<lparr>members := update_first i m' (members g)\<rparr>)\<rparr>)"

definition issue :: "call \<Rightarrow> bot \<Rightarrow> bot" where
  "issue c b = b\<lparr>calls := calls b @ [c]\<rparr>"

definition log_error :: "string \<Rightarrow> bot \<Rightarrow> bot" where
  "log_error s b = b\<lparr>logged := logged b @ [LogError s]\<rparr>"

definition log_cmd :: "string \<Rightarrow> bot \<Rightarrow> bot" where
  "log_cmd s b = b\<lparr>logged := logged b @ [LogCmd s]\<rparr>"

section \<open>Role provisioning\<close>

definition reason :: string where
  "reason = ''Provision Task via UO Authenticator or Sentry''"

text \<open>The loop of \<open>_assignUserRoles\<close> and \<open>_revokeUserRoles\<close>: each name is looked up
  in the guild's catalog, and a name with no role is skipped.\<close>

fun resolveRoles :: "guild \<Rightarrow> string list \<Rightarrow> role list" where
  "resolveRoles g [] = []"
| "resolveRoles g (n # ns) =
     (case List.find (\<lambda>r. role_name r = n) (g_roles g) of
        Some guildRole \<Rightarrow> guildRole # resolveRoles g ns
      | None \<Rightarrow> resolveRoles g ns)"

text \<open>\<open>Array.prototype.join\<close>.\<close>

fun join :: "string \<Rightarrow> string list \<Rightarrow> string" where
  "join sep [] = []"
| "join sep [x] = x"
| "join sep (x # y # ys) = x @ sep @ join sep (y # ys)"

text \<open>\<open>_logRoleChangeFromAuth\<close>: the send to the log channel is tried, and a failure is
  logged and swallowed. The promise of \<open>send\<close> is not awaited, so what can throw here is
  the read of an undefined log channel and the building of the entry.\<close>

definition logRoleChangeFromAuth :: "platform \<Rightarrow> member option \<Rightarrow> string \<Rightarrow> string \<Rightarrow> bot \<Rightarrow> bot" where
  "logRoleChangeFromAuth P user action result b =
     (case p_logChannel b of
        None \<Rightarrow> log_error ''ROLE_CHANGE_LOG_FAILED'' b
      | Some sent \<Rightarrow>
          (case rolesUpdatedLogMessage_err P user action result of
             Some e \<Rightarrow> log_error ''ROLE_CHANGE_LOG_FAILED'' b
           | None \<Rightarrow> b\<lparr>p_logChannel := Some (sent @ [RolesUpdatedLog user action result])\<rparr>))"

text \<open>The \<open>try\<close> block of \<open>_assignUserRoles\<close>.\<close>

definition assignUserRoles_try :: "platform \<Rightarrow> string \<Rightarrow> string list \<Rightarrow> bot \<Rightarrow> bool outcome" where
  "assignUserRoles_try P i rs b =
     (case p_guild b of
        None \<Rightarrow> (Inl (TypeError ''Cannot read property members of undefined''), b)
      | Some g \<Rightarrow>
          (case find_member i g of
             Some m \<Rightarrow>
               (let rolesToAdd = resolveRoles g rs;
                    b1 = issue (AddRoles i rolesToAdd reason) b
                in case addRoles_err P m rolesToAdd of
                     Some e \<Rightarrow> (Inl (Rejected e), b1)
                   | None \<Rightarrow>
                       (let m' = api_addRoles m rolesToAdd
                        in (Inr True,
                            logRoleChangeFromAuth P (Some m') ''AUTH_PROVISIONING'' (join '', '' rs)
                              (set_member i m' b1))))
           | None \<Rightarrow>
               (Inr True, logRoleChangeFromAuth P None ''AUTH_PROVISIONING'' (join '', '' rs) b)))"

definition assignUserRoles :: "platform \<Rightarrow> string \<Rightarrow> string list \<Rightarrow> bot \<Rightarrow> bool outcome" where
  "assignUserRoles P i rs b =
     (case assignUserRoles_try P i rs b of
        (Inl err, b') \<Rightarrow> (Inr False, log_error (''AUTH_PROVISIONING_FAILURE: '' @ err_message err) b')
      | (Inr r, b') \<Rightarrow> (Inr r, b'))"

text \<open>
  The \<open>try\<close> block of \<open>_revokeUserRoles\<close>, statement by statement: the roles to revoke
  (the member's own when the payload names none, which reads \<open>member.roles\<close> whether or
  not a member was found), the removal when there is a member, and the audit entry, whose
  text reads \<open>member.user.username\<close> whether or not a member was found.
\<close>

definition rolesToRevoke :: "guild \<Rightarrow> member option \<Rightarrow> string list option \<Rightarrow> error + role list" where
  "rolesToRevoke g mem rs =
     (case rs of
        Some names \<Rightarrow> Inr (resolveRoles g names)
      | None \<Rightarrow>
          (case mem of
             None \<Rightarrow> Inl (TypeError ''Cannot read property roles of null'')
           | Some m \<Rightarrow> Inr (roles m)))"

definition revokeUserRoles_try :: "platform \<Rightarrow> string \<Rightarrow> string list option \<Rightarrow> bot \<Rightarrow> bool outcome" where
  "revokeUserRoles_try P i rs b =
     (case p_guild b of
        None \<Rightarrow> (Inl (TypeError ''Cannot read property members of undefined''), b)
      | Some g \<Rightarrow>
          (let mem = find_member i g
           in case rolesToRevoke g mem rs of
                Inl err \<Rightarrow> (Inl err, b)
              | Inr toRevoke \<Rightarrow>
                  (case mem of
                     Some m \<Rightarrow>
                       (let b1 = issue (RemoveRoles i toRevoke reason) b
                        in case removeRoles_err P m toRevoke of
                             Some e \<Rightarrow> (Inl (Rejected e), b1)
                           | None \<Rightarrow>
                               (let m' = api_removeRoles g m toRevoke
                                in (Inr True,
                                    logRoleChangeFromAuth P (Some m') ''AUTH_REVOKE''
                                      (username m' @ '' roles revoked'') (set_member i m' b1))))
                   | None \<Rightarrow> (Inl (TypeError ''Cannot read property user of null''), b))))"

definition revokeUserRoles :: "platform \<Rightarrow> string \<Rightarrow> string list option \<Rightarrow> bot \<Rightarrow> bool outcome" where
  "revokeUserRoles P i rs b =
     (case revokeUserRoles_try P i rs b of
        (Inl err, b') \<Rightarrow> (Inr False, log_error (''AUTH_REVOKE_FAILURE: '' @ err_message err) b')
      | (Inr r, b') \<Rightarrow> (Inr r, b'))"

text \<open>\<open>success = success && (await f())\<close>: the call is made only when \<open>success\<close> still
  holds.\<close>

definition and_await :: "bool \<Rightarrow> (bot \<Rightarrow> bool outcome) \<Rightarrow> bot \<Rightarrow> bool outcome" where
  "and_await success f b = (if success then f b else (Inr False, b))"

text \<open>The \<open>try\<close> block of \<open>provisionUserRoles\<close>; \<open>assign\<close> and \<open>revoke\<close> are optional
  arguments, and \<open>x && x.length > 0\<close> holds of a list that is given and not empty.\<close>

definition assign_step :: "platform \<Rightarrow> string \<Rightarrow> string list option \<Rightarrow> bot \<Rightarrow> bool outcome" where
  "assign_step P i assign b =
     (case assign of
        Some (a # as) \<Rightarrow> and_await True (assignUserRoles P i (a # as)) b
      | _ \<Rightarrow> (Inr True, b))"

definition revoke_step :: "platform \<Rightarrow> string \<Rightarrow> string list option \<Rightarrow> bool \<Rightarrow> bot \<Rightarrow> bool outcome" where
  "revoke_step P i revoke success b =
     (case revoke of
        Some (r # rs) \<Rightarrow>
          (if r # rs = [''Symbol(all)''] then and_await success (revokeUserRoles P i None) b
           else and_await success (revokeUserRoles P i (Some (r # rs))) b)
      | _ \<Rightarrow> (Inr success, b))"

definition provisionUserRoles_try ::
  "platform \<Rightarrow> string \<Rightarrow> string list option \<Rightarrow> string list option \<Rightarrow> bot \<Rightarrow> bool outcome" where
  "provisionUserRoles_try P i assign revoke b =
     (case assign_step P i assign b of
        (Inl err, b1) \<Rightarrow> (Inl err, b1)
      | (Inr success, b1) \<Rightarrow> revoke_step P i revoke success b1)"

definition provisionUserRoles ::
  "platform \<Rightarrow> string \<Rightarrow> string list option \<Rightarrow> string list option \<Rightarrow> bot \<Rightarrow> bool outcome" where
  "provisionUserRoles P i assign revoke b =
     (case provisionUserRoles_try P i assign revoke b of
        (Inl err, b') \<Rightarrow> (Inr False, log_error (''FAILED_GRPC_PROVISION: '' @ i) b')
      | (Inr r, b') \<Rightarrow> (Inr r, b'))"




section \<open>The command registry\<close>

text \<open>The state of \<open>new Bot\<close>: both maps empty, the counter at zero, no guild and no log
  channel before the client is ready.\<close>

definition new_Bot :: bot where
  "new_Bot = \<lparr>p_guild = None, p_logChannel = None, p_commands = Map.empty,
     p_descriptions = Map.empty, REQUEST_COUNT = 0, calls = [], logged = [], exited = None\<rparr>"

definition addCommand ::
  "string \<Rightarrow> string \<Rightarrow> BotAction \<Rightarrow> CommandProvision option \<Rightarrow> bot \<Rightarrow> bot" where
  "addCommand cmd desc action provision b =
     b\<lparr>p_commands := (p_commands b)(cmd \<mapsto>
          (case provision of Some p \<Rightarrow> prov_apply p action | None \<Rightarrow> action)),
       p_descriptions := (p_descriptions b)(cmd \<mapsto>
          (case provision of Some p \<Rightarrow> desc @ '' _**('' @ prov_name p @ '')**_'' | None \<Rightarrow> desc))\<rparr>"

section \<open>The dispatcher\<close>

text \<open>\<open>String.prototype.split(' ')\<close>: the pieces between single spaces, empty pieces
  kept; the result is never empty.\<close>

fun split_sp :: "string \<Rightarrow> string list" where
  "split_sp [] = [[]]"
| "split_sp (c # cs) =
     (if c = CHR '' '' then [] # split_sp cs
      else (case split_sp cs of
              [] \<Rightarrow> [[c]]
            | w # ws \<Rightarrow> (c # w) # ws))"

definition startsWith :: "string \<Rightarrow> string \<Rightarrow> bool" where
  "startsWith s p = (take (length p) s = p)"

text \<open>\<open>REQUEST_COUNT++\<close> on a JavaScript number: exact below \<open>2 ^ 53\<close>, where adding one
  rounds back to the same value.\<close>

definition js_incr :: "nat \<Rightarrow> nat" where
  "js_incr n = (if n < 2 ^ 53 then n + 1 else n)"

definition msg_delete :: "platform \<Rightarrow> message \<Rightarrow> bot \<Rightarrow> unit outcome" where
  "msg_delete P msg b =
     (case delete_err P msg of
        Some e \<Rightarrow> (Inl (Rejected e), issue (Delete msg) b)
      | None \<Rightarrow> (Inr (), issue (Delete msg) b))"

definition author_send :: "platform \<Rightarrow> message \<Rightarrow> string \<Rightarrow> bot \<Rightarrow> unit outcome" where
  "author_send P msg text b =
     (case send_err P msg text of
        Some e \<Rightarrow> (Inl (Rejected e), issue (Send (author_username msg) text) b)
      | None \<Rightarrow> (Inr (), issue (Send (author_username msg) text) b))"

text \<open>\<open>_logCommandUse\<close>: as for the role audit, a failure is logged and swallowed.\<close>

definition logCommandUse :: "platform \<Rightarrow> message \<Rightarrow> string \<Rightarrow> bot \<Rightarrow> bot" where
  "logCommandUse P msg output b =
     (case p_logChannel b of
        None \<Rightarrow> log_error ''COMMAND_USE_LOG_FAILED'' b
      | Some sent \<Rightarrow>
          (case commandUseLogMessage_err P msg output of
             Some e \<Rightarrow> log_error ''COMMAND_USE_LOG_FAILED'' b
           | None \<Rightarrow> b\<lparr>p_logChannel := Some (sent @ [CommandUseLog msg output])\<rparr>))"

definition origin :: "message \<Rightarrow> string" where
  "origin msg = (case msg_guild msg of Some g \<Rightarrow> ''GLD'' | None \<Rightarrow> ''PM'')"

text \<open>The branch of \<open>_onMessage\<close> for a keyword with a handler: its \<open>try\<close> block, then
  the \<open>catch\<close>.\<close>

definition found_try :: "platform \<Rightarrow> message \<Rightarrow> string \<Rightarrow> string list \<Rightarrow> BotAction \<Rightarrow> bot \<Rightarrow> unit outcome" where
  "found_try P msg cmd args fn b =
     (case (if origin msg = ''GLD'' then msg_delete P msg b else (Inr (), b)) of
        (Inl err, b1) \<Rightarrow> (Inl err, b1)
      | (Inr u, b1) \<Rightarrow>
          (case fn (case msg_guild msg of Some g \<Rightarrow> Some g | None \<Rightarrow> p_guild b1) msg args of
             Inl err \<Rightarrow> (Inl err, b1)
           | Inr output \<Rightarrow>
               (let b2 = logCommandUse P msg output b1;
                    b3 = log_cmd (''('' @ origin msg @ '')('' @ author_username msg @ '' - '' @ cmd
                                   @ '') - '' @ output) b2
                in if cmd = ''!shutdown'' \<and> output = ''shutdown successful''
                   then (Inr (), b3\<lparr>exited := Some 0\<rparr>)
                   else (Inr (), b3))))"

definition found :: "platform \<Rightarrow> message \<Rightarrow> string \<Rightarrow> string list \<Rightarrow> BotAction \<Rightarrow> bot \<Rightarrow> bot" where
  "found P msg cmd args fn b =
     (case found_try P msg cmd args fn b of
        (Inl err, b') \<Rightarrow>
          log_error (''COMMAND ('' @ origin msg @ '')('' @ author_username msg @ '' - '' @ cmd
                      @ '') : '' @ err_message err) b'
      | (Inr u, b') \<Rightarrow> b')"

text \<open>The notice sent for an unknown keyword; its last four bytes are the emoji of the
  source text.\<close>

definition notice :: "string \<Rightarrow> string" where
  "notice cmd = ''Sorry, I wasn'' @ [CHR 0x27] @ ''t taught how to handle `'' @ cmd @ ''`. ''
     @ [CHR 0xF0, CHR 0x9F, CHR 0x99, CHR 0x81]"

text \<open>The branch for a keyword without a handler: one \<open>try\<close> block around the deletion,
  the notice and the log entry, and the \<open>catch\<close>.\<close>

definition not_found_try :: "platform \<Rightarrow> message \<Rightarrow> string \<Rightarrow> bot \<Rightarrow> unit outcome" where
  "not_found_try P msg cmd b =
     (case msg_delete P msg b of
        (Inl err, b1) \<Rightarrow> (Inl err, b1)
      | (Inr u, b1) \<Rightarrow>
          (case author_send P msg (notice cmd) b1 of
             (Inl err, b2) \<Rightarrow> (Inl err, b2)
           | (Inr u, b2) \<Rightarrow>
               (Inr (), log_error (''NO_COMMAND ('' @ author_username msg @ '') - '' @ cmd) b2)))"

definition not_found :: "platform \<Rightarrow> message \<Rightarrow> string \<Rightarrow> bot \<Rightarrow> bot" where
  "not_found P msg cmd b =
     (case not_found_try P msg cmd b of
        (Inl err, b') \<Rightarrow> log_error ''MESSAGE_DELETE'' b'
      | (Inr u, b') \<Rightarrow> b')"

text \<open>\<open>_onMessage\<close>. Nothing outside the two \<open>try\<close> blocks can throw, so the handler of
  the event returns the new state. \<open>split\<close> never returns the empty list: the branch for
  it is there for the pattern match alone.\<close>

definition onMessage :: "platform \<Rightarrow> message \<Rightarrow> bot \<Rightarrow> bot" where
  "onMessage P msg b =
     (if author_bot msg then b
      else (case split_sp (content msg) of
              [] \<Rightarrow> b
            | cmd # args \<Rightarrow>
                (let cmdKey = drop 1 cmd
                 in if startsWith cmd ''!''
                    then (let b1 = b\<lparr>REQUEST_COUNT := js_incr (REQUEST_COUNT b)\<rparr>
                          in case p_commands b1 cmdKey of
                               Some fn \<Rightarrow> found P msg cmd args fn b1
                             | None \<Rightarrow> not_found P msg cmd b1)
                    else b)))"

section \<open>Registrations and sample data\<close>

text \<open>A registration is the argument list of one \<open>addCommand\<close> call; \<open>stored\<close> is the
  handler that call puts into the map (line 212 of the source).\<close>

type_synonym registration = "string \<times> string \<times> BotAction \<times> CommandProvision option"

definition register :: "bot \<Rightarrow> registration \<Rightarrow> bot" where
  "register b r = (case r of (cmd, desc, action, provision) \<Rightarrow> addCommand cmd desc action provision b)"

definition stored :: "registration \<Rightarrow> BotAction" where
  "stored r =
     (case r of (cmd, desc, action, provision) \<Rightarrow>
        (case provision of Some p \<Rightarrow> prov_apply p action | None \<Rightarrow> action))"

text \<open>A small guild: the catalog has the roles A, B and C, and its one member, u1, holds
  C. The bot is ready, with an empty log channel. The second guild is the same with the
  role \<open>@everyone\<close> in the catalog, which its member lists first.\<close>

definition roleA :: role where "roleA = Role ''1'' ''A''"
definition roleB :: role where "roleB = Role ''2'' ''B''"
definition roleC :: role where "roleC = Role ''3'' ''C''"

definition u1 :: member where
  "u1 = \<lparr>member_id = ''u1'', username = ''alice'', roles = [roleC]\<rparr>"

definition guild0 :: guild where
  "guild0 = \<lparr>guild_id = ''100'', members = [u1], g_roles = [roleA, roleB, roleC]\<rparr>"

definition bot0 :: bot where
  "bot0 = new_Bot\<lparr>p_guild := Some guild0, p_logChannel := Some []\<rparr>"

definition everyone :: role where "everyone = Role ''200'' ''@everyone''"

definition u1e :: member where
  "u1e = \<lparr>member_id = ''u1'', username = ''alice'', roles = [everyone, roleC]\<rparr>"

definition guild1 :: guild where
  "guild1 = \<lparr>guild_id = ''200'', members = [u1e], g_roles = [everyone, roleA, roleB, roleC]\<rparr>"

definition bot1 :: bot where
  "bot1 = new_Bot\<lparr>p_guild := Some guild1, p_logChannel := Some []\<rparr>"

text \<open>Platforms: one on which nothing fails, one that refuses to add roles, one that
  refuses to remove roles and one that refuses to delete messages.\<close>

definition calm :: platform where
  "calm = \<lparr>addRoles_err = (\<lambda>m rs. None), removeRoles_err = (\<lambda>m rs. None),
     delete_err = (\<lambda>msg. None), send_err = (\<lambda>msg text. None),
     rolesUpdatedLogMessage_err = (\<lambda>user action result. None),
     commandUseLogMessage_err = (\<lambda>msg output. None)\<rparr>"

definition no_adding :: platform where
  "no_adding = calm\<lparr>addRoles_err := (\<lambda>m rs. Some ''Missing Permissions'')\<rparr>"

definition no_removing :: platform where
  "no_removing = calm\<lparr>removeRoles_err := (\<lambda>m rs. Some ''Missing Permissions'')\<rparr>"

definition no_deleting :: platform where
  "no_deleting = calm\<lparr>delete_err := (\<lambda>msg. Some ''Missing Access'')\<rparr>"

text \<open>Messages of a user: an unknown command sent in the guild and in private, and the
  shutdown command.\<close>

definition nope_gld :: message where
  "nope_gld = \<lparr>content = ''!nope'', author_bot = False, author_username = ''alice'',
     msg_guild = Some guild0\<rparr>"

definition nope_pm :: message where
  "nope_pm = \<lparr>content = ''!nope'', author_bot = False, author_username = ''alice'',
     msg_guild = None\<rparr>"

definition shutdown_pm :: message where
  "shutdown_pm = \<lparr>content = ''!shutdown'', author_bot = False, author_username = ''alice'',
     msg_guild = None\<rparr>"

text \<open>Handlers: one that returns the outcome of a successful shutdown, one that returns
  another outcome, one that fails; and an access decorator that refuses everybody.\<close>

definition shutdown_ok :: BotAction where
  "shutdown_ok g msg args = Inr ''shutdown successful''"

definition pong :: BotAction where
  "pong g msg args = Inr ''PONG''"

definition broken :: BotAction where
  "broken g msg args = Inl (Rejected ''boom'')"

definition nobody :: CommandProvision where
  "nobody = \<lparr>prov_name = ''nobody'', prov_apply = (\<lambda>action g msg args. Inr ''REJECTED'')\<rparr>"

section \<open>Observations\<close>

text \<open>What the theorems read off a state: the member with an identifier, the roles it
  holds, the role removals among the platform calls issued, and the audit entries tagged
  \<open>AUTH_REVOKE\<close>.\<close>

definition member_of :: "string \<Rightarrow> bot \<Rightarrow> member option" where
  "member_of i b = (case p_guild b of None \<Rightarrow> None | Some g \<Rightarrow> find_member i g)"

definition held_roles :: "string \<Rightarrow> bot \<Rightarrow> role list" where
  "held_roles i b =
     (case p_guild b of
        None \<Rightarrow> []
      | Some g \<Rightarrow> (case find_member i g of None \<Rightarrow> [] | Some m \<Rightarrow> roles m))"

fun is_removal :: "call \<Rightarrow> bool" where
  "is_removal (RemoveRoles i rs re) = True"
| "is_removal (AddRoles i rs re) = False"
| "is_removal (Delete msg) = False"
| "is_removal (Send user text) = False"

definition removals :: "bot \<Rightarrow> call list" where
  "removals b = filter is_removal (calls b)"

fun is_revoke_entry :: "embed \<Rightarrow> bool" where
  "is_revoke_entry (RolesUpdatedLog user action result) = (action = ''AUTH_REVOKE'')"
| "is_revoke_entry (CommandUseLog msg output) = False"

definition revoke_entries :: "bot \<Rightarrow> embed list" where
  "revoke_entries b = (case p_logChannel b of None \<Rightarrow> [] | Some sent \<Rightarrow> filter is_revoke_entry sent)"

section \<open>Role provisioning: properties\<close>

lemmas sample_defs = roleA_def roleB_def roleC_def u1_def guild0_def bot0_def new_Bot_def
  everyone_def u1e_def guild1_def bot1_def
  calm_def no_adding_def no_removing_def no_deleting_def nope_gld_def nope_pm_def
  shutdown_pm_def shutdown_ok_def pong_def broken_def nobody_def

lemmas provision_defs = provisionUserRoles_def provisionUserRoles_try_def assign_step_def
  revoke_step_def and_await_def assignUserRoles_def assignUserRoles_try_def
  revokeUserRoles_def revokeUserRoles_try_def rolesToRevoke_def logRoleChangeFromAuth_def
  find_member_def set_member_def issue_def log_error_def api_addRoles_def api_removeRoles_def
  reason_def held_roles_def member_of_def is_everyone_def removals_def revoke_entries_def Let_def

lemma assignUserRoles_returns: "\<exists>r. fst (assignUserRoles P i rs b) = Inr r"
  by (auto simp add: assignUserRoles_def split: prod.split sum.split)

lemma revokeUserRoles_returns: "\<exists>r. fst (revokeUserRoles P i rs b) = Inr r"
  by (auto simp add: revokeUserRoles_def split: prod.split sum.split)

lemma assign_step_returns: "\<exists>r. fst (assign_step P i assign b) = Inr r"
  using assignUserRoles_returns
  by (auto simp add: assign_step_def and_await_def split: option.split list.split)

lemma revoke_step_returns: "\<exists>r. fst (revoke_step P i revoke success b) = Inr r"
  using revokeUserRoles_returns
  by (auto simp add: revoke_step_def and_await_def split: option.split list.split)

lemma provisionUserRoles_try_returns: "\<exists>r. fst (provisionUserRoles_try P i assign revoke b) = Inr r"
proof -
  obtain r1 b1 where s1: "assign_step P i assign b = (Inr r1, b1)"
    using assign_step_returns [of P i assign b] by (cases "assign_step P i assign b") auto
  show ?thesis
    using revoke_step_returns [of P i revoke r1 b1] by (simp add: provisionUserRoles_try_def s1)
qed

lemma provisionUserRoles_is_try:
  "provisionUserRoles P i assign revoke b = provisionUserRoles_try P i assign revoke b"
proof -
  obtain r b' where "provisionUserRoles_try P i assign revoke b = (Inr r, b')"
    using provisionUserRoles_try_returns [of P i assign revoke b]
    by (cases "provisionUserRoles_try P i assign revoke b") auto
  then show ?thesis by (simp add: provisionUserRoles_def)
qed

lemma find_update_first:
  "member_id m' = i \<Longrightarrow> List.find (\<lambda>m. member_id m = i) ms = Some m
   \<Longrightarrow> List.find (\<lambda>m. member_id m = i) (update_first i m' ms) = Some m'"
  by (induction ms) (auto split: if_splits)

lemma find_member_id: "find_member i g = Some m \<Longrightarrow> member_id m = i"
  by (auto simp: find_member_def find_Some_iff)

lemma filter_everyone_or_absent:
  "filter (\<lambda>r. is_everyone g r \<or> r \<notin> set rs) rs = filter (is_everyone g) rs"
  by (rule filter_cong) auto

lemma assign_ok:
  assumes g: "p_guild b = Some g" and m: "find_member i g = Some m"
    and ok: "addRoles_err P m (resolveRoles g rs) = None"
  shows "\<exists>b1 g1. assignUserRoles P i rs b = (Inr True, b1) \<and> p_guild b1 = Some g1
     \<and> guild_id g1 = guild_id g
     \<and> find_member i g1 = Some (api_addRoles m (resolveRoles g rs))
     \<and> calls b1 = calls b @ [AddRoles i (resolveRoles g rs) reason]"
proof -
  have mid: "member_id (api_addRoles m (resolveRoles g rs)) = i"
    using find_member_id [OF m] by (simp add: api_addRoles_def)
  have "find_member i (g\<lparr>members := update_first i (api_addRoles m (resolveRoles g rs)) (members g)\<rparr>)
      = Some (api_addRoles m (resolveRoles g rs))"
    using find_update_first [OF mid] m by (simp add: find_member_def)
  then show ?thesis
    using g m ok
    by (simp add: assignUserRoles_def assignUserRoles_try_def Let_def set_member_def issue_def
        logRoleChangeFromAuth_def log_error_def split: option.split)
qed

lemma revoke_all_ok:
  assumes g: "p_guild b = Some g" and m: "find_member i g = Some m"
    and ok: "removeRoles_err P m (roles m) = None"
  shows "fst (revokeUserRoles P i None b) = Inr True
     \<and> calls (snd (revokeUserRoles P i None b)) = calls b @ [RemoveRoles i (roles m) reason]
     \<and> member_of i (snd (revokeUserRoles P i None b))
         = Some (m\<lparr>roles := filter (is_everyone g) (roles m)\<rparr>)"
proof -
  let ?m' = "api_removeRoles g m (roles m)"
  have r: "?m' = m\<lparr>roles := filter (is_everyone g) (roles m)\<rparr>"
    by (simp add: api_removeRoles_def filter_everyone_or_absent)
  have mid: "member_id ?m' = i"
    using find_member_id [OF m] by (simp add: api_removeRoles_def)
  have f: "find_member i (g\<lparr>members := update_first i ?m' (members g)\<rparr>) = Some ?m'"
    using find_update_first [OF mid] m by (simp add: find_member_def)
  have "revokeUserRoles P i None b
      = (Inr True, logRoleChangeFromAuth P (Some ?m') ''AUTH_REVOKE'' (username ?m' @ '' roles revoked'')
           (set_member i ?m' (issue (RemoveRoles i (roles m) reason) b)))"
    using g m ok
    by (simp add: revokeUserRoles_def revokeUserRoles_try_def rolesToRevoke_def Let_def)
  moreover have "calls (logRoleChangeFromAuth P u a t (set_member i ?m' (issue c b))) = calls b @ [c]"
    for u a t c
    using g by (simp add: logRoleChangeFromAuth_def log_error_def set_member_def issue_def
        split: option.split)
  moreover have "member_of i (logRoleChangeFromAuth P u a t (set_member i ?m' (issue c b))) = Some ?m'"
    for u a t c
    using g f by (simp add: logRoleChangeFromAuth_def log_error_def set_member_def issue_def
        member_of_def split: option.split)
  ultimately show ?thesis
    by (simp add: r)
qed

lemma set_resolve_subset_added: "set rs \<subseteq> set (roles (api_addRoles m rs))"
  by (auto simp add: api_addRoles_def)

lemma assignUserRoles_removals: "removals (snd (assignUserRoles P i rs b)) = removals b"
  by (simp add: assignUserRoles_def assignUserRoles_try_def Let_def set_member_def issue_def
      logRoleChangeFromAuth_def log_error_def removals_def split: option.split)

lemma assignUserRoles_revoke_entries: "revoke_entries (snd (assignUserRoles P i rs b)) = revoke_entries b"
  by (simp add: assignUserRoles_def assignUserRoles_try_def Let_def set_member_def issue_def
      logRoleChangeFromAuth_def log_error_def revoke_entries_def split: option.split)

text \<open>
  Claim C1, as the specification states it: \<open>Provision\<close> of \<open>u1\<close> with the roles A and B to
  assign and \<open>all\<close> to revoke leaves the member with exactly the roles A and B. It does not.
  The string \<open>all\<close> is not the sentinel but a role name, which the catalog of the sample
  guild does not have: the member keeps what it had and gets A and B. With the sentinel of
  the source, \<open>Symbol(all)\<close>, the member ends with \<open>@everyone\<close> alone, A and B gone.
\<close>

theorem provision_AB_all_counterexample:
  "held_roles ''u1'' bot1 = [everyone, roleC]
   \<and> held_roles ''u1'' (snd (provisionUserRoles calm ''u1'' (Some [''A'', ''B'']) (Some [''all'']) bot1))
       = [everyone, roleC, roleA, roleB]
   \<and> held_roles ''u1'' (snd (provisionUserRoles calm ''u1'' (Some [''A'', ''B'']) (Some [''Symbol(all)'']) bot1))
       = [everyone]
   \<and> set (held_roles ''u1'' (snd (provisionUserRoles calm ''u1'' (Some [''A'', ''B'']) (Some [''all'']) bot1)))
       \<noteq> {roleA, roleB}
   \<and> set (held_roles ''u1'' (snd (provisionUserRoles calm ''u1'' (Some [''A'', ''B'']) (Some [''Symbol(all)'']) bot1)))
       \<noteq> {roleA, roleB}"
proof -
  have before: "held_roles ''u1'' bot1 = [everyone, roleC]"
    by (simp add: held_roles_def find_member_def sample_defs)
  have plain: "held_roles ''u1''
      (snd (provisionUserRoles calm ''u1'' (Some [''A'', ''B'']) (Some [''all'']) bot1))
      = [everyone, roleC, roleA, roleB]"
    by (simp add: provision_defs sample_defs)
  have sentinel: "held_roles ''u1''
      (snd (provisionUserRoles calm ''u1'' (Some [''A'', ''B'']) (Some [''Symbol(all)'']) bot1))
      = [everyone]"
    by (simp add: provision_defs sample_defs)
  have "everyone \<notin> {roleA, roleB}"
    by (simp add: roleA_def roleB_def everyone_def)
  then have "set [everyone, roleC, roleA, roleB] \<noteq> {roleA, roleB}"
    and "set [everyone] \<noteq> {roleA, roleB}"
    by (metis list.set_intros(1))+
  then show ?thesis
    by (simp only: before plain sentinel simp_thms)
qed

text \<open>
  Claim C1, amended: on a ready bot, for a member of the guild and a platform that accepts
  the role calls, \<open>Provision\<close> with a list of roles to assign that is not empty and the
  sentinel \<open>Symbol(all)\<close> to revoke succeeds. It issues two platform calls, in this order:
  the assignment of the roles of the catalog that the names resolve to, then one removal
  that names every role the member holds after the assignment, the roles just assigned
  among them. The member is left with no role but \<open>@everyone\<close>, whatever it held before.
\<close>

theorem provision_assign_then_revoke_all:
  assumes "p_guild b = Some g" and "find_member i g = Some m"
    and "\<forall>m rs. addRoles_err P m rs = None" and "\<forall>m rs. removeRoles_err P m rs = None"
  shows "fst (provisionUserRoles P i (Some (a # as)) (Some [''Symbol(all)'']) b) = Inr True
     \<and> calls (snd (provisionUserRoles P i (Some (a # as)) (Some [''Symbol(all)'']) b))
         = calls b @ [AddRoles i (resolveRoles g (a # as)) reason,
                      RemoveRoles i (roles (api_addRoles m (resolveRoles g (a # as)))) reason]
     \<and> set (resolveRoles g (a # as)) \<subseteq> set (roles (api_addRoles m (resolveRoles g (a # as))))
     \<and> member_of i (snd (provisionUserRoles P i (Some (a # as)) (Some [''Symbol(all)'']) b))
         = Some (m\<lparr>roles := filter (is_everyone g) (roles (api_addRoles m (resolveRoles g (a # as))))\<rparr>)"
proof -
  let ?m1 = "api_addRoles m (resolveRoles g (a # as))"
  obtain b1 g1 where s: "assignUserRoles P i (a # as) b = (Inr True, b1)" "p_guild b1 = Some g1"
      "guild_id g1 = guild_id g" "find_member i g1 = Some ?m1"
      "calls b1 = calls b @ [AddRoles i (resolveRoles g (a # as)) reason]"
    using assign_ok [OF assms(1) assms(2), of P "a # as"] assms(3) by auto
  have p: "provisionUserRoles P i (Some (a # as)) (Some [''Symbol(all)'']) b = revokeUserRoles P i None b1"
    using s(1)
    by (simp add: provisionUserRoles_is_try provisionUserRoles_try_def assign_step_def
        revoke_step_def and_await_def)
  have e: "is_everyone g1 = is_everyone g"
    by (rule ext) (simp add: is_everyone_def s(3))
  have u: "?m1\<lparr>roles := filter (is_everyone g) (roles ?m1)\<rparr>
      = m\<lparr>roles := filter (is_everyone g) (roles ?m1)\<rparr>"
    by (simp add: api_addRoles_def)
  have ok: "removeRoles_err P ?m1 (roles ?m1) = None"
    using assms(4) by simp
  show ?thesis
    using revoke_all_ok [OF s(2) s(4) ok] set_resolve_subset_added [of "resolveRoles g (a # as)" m]
    by (simp add: p s(5) e u del: resolveRoles.simps)
qed

theorem provision_assign_then_revoke_all_witness:
  "fst (provisionUserRoles calm ''u1'' (Some [''A'', ''B'']) (Some [''Symbol(all)'']) bot1) = Inr True
   \<and> calls (snd (provisionUserRoles calm ''u1'' (Some [''A'', ''B'']) (Some [''Symbol(all)'']) bot1))
       = [AddRoles ''u1'' [roleA, roleB] reason,
          RemoveRoles ''u1'' [everyone, roleC, roleA, roleB] reason]
   \<and> member_of ''u1'' (snd (provisionUserRoles calm ''u1'' (Some [''A'', ''B'']) (Some [''Symbol(all)'']) bot1))
       = Some (u1e\<lparr>roles := [everyone]\<rparr>)"
proof -
  have g: "p_guild bot1 = Some guild1"
    by (simp add: bot1_def)
  have m: "find_member ''u1'' guild1 = Some u1e"
    by (simp add: find_member_def guild1_def u1e_def)
  have ok1: "\<forall>m rs. addRoles_err calm m rs = None" and ok2: "\<forall>m rs. removeRoles_err calm m rs = None"
    by (simp_all add: calm_def)
  have r: "resolveRoles guild1 [''A'', ''B''] = [roleA, roleB]"
    by (simp add: guild1_def everyone_def roleA_def roleB_def roleC_def)
  have h: "roles (api_addRoles u1e [roleA, roleB]) = [everyone, roleC, roleA, roleB]"
    by (simp add: api_addRoles_def u1e_def everyone_def roleA_def roleB_def roleC_def)
  have f: "filter (is_everyone guild1) [everyone, roleC, roleA, roleB] = [everyone]"
    by (simp add: is_everyone_def guild1_def everyone_def roleA_def roleB_def roleC_def)
  have c: "calls bot1 = []"
    by (simp add: bot1_def new_Bot_def)
  have "fst (provisionUserRoles calm ''u1'' (Some [''A'', ''B'']) (Some [''Symbol(all)'']) bot1) = Inr True
     \<and> calls (snd (provisionUserRoles calm ''u1'' (Some [''A'', ''B'']) (Some [''Symbol(all)'']) bot1))
         = calls bot1 @ [AddRoles ''u1'' (resolveRoles guild1 [''A'', ''B'']) reason,
                      RemoveRoles ''u1'' (roles (api_addRoles u1e (resolveRoles guild1 [''A'', ''B'']))) reason]
     \<and> set (resolveRoles guild1 [''A'', ''B'']) \<subseteq> set (roles (api_addRoles u1e (resolveRoles guild1 [''A'', ''B''])))
     \<and> member_of ''u1'' (snd (provisionUserRoles calm ''u1'' (Some [''A'', ''B'']) (Some [''Symbol(all)'']) bot1))
         = Some (u1e\<lparr>roles := filter (is_everyone guild1) (roles (api_addRoles u1e (resolveRoles guild1 [''A'', ''B''])))\<rparr>)"
    by (rule provision_assign_then_revoke_all [OF g m ok1 ok2])
  then show ?thesis
    by (simp only: r h f c append_Nil)
qed

text \<open>
  Claim C2 says that \<open>Provision\<close> for an identifier that matches no member succeeds, with
  an audit entry. The revocation of the source does not: on the sample guild, which has no
  member \<open>ghost\<close>, revoking the role A fails on reading \<open>member.user.username\<close>, and
  revoking everything fails on reading \<open>member.roles\<close>. The result is \<open>False\<close>, the
  process log gets an \<open>AUTH_REVOKE_FAILURE\<close> entry and the log channel gets no entry.
\<close>

theorem provision_unknown_member_revoke_fails:
  "fst (provisionUserRoles calm ''ghost'' (Some []) (Some [''A'']) bot0) = Inr False
   \<and> logged (snd (provisionUserRoles calm ''ghost'' (Some []) (Some [''A'']) bot0))
       = [LogError ''AUTH_REVOKE_FAILURE: Cannot read property user of null'']
   \<and> p_logChannel (snd (provisionUserRoles calm ''ghost'' (Some []) (Some [''A'']) bot0)) = Some []
   \<and> fst (provisionUserRoles calm ''ghost'' (Some []) (Some [''Symbol(all)'']) bot0) = Inr False
   \<and> logged (snd (provisionUserRoles calm ''ghost'' (Some []) (Some [''Symbol(all)'']) bot0))
       = [LogError ''AUTH_REVOKE_FAILURE: Cannot read property roles of null'']"
  by (simp add: provision_defs sample_defs)

text \<open>
  Claim C3, as the specification states it: an error raised during the assignment or the
  revocation yields \<open>False\<close> and an error log entry that names the user. On a platform
  that refuses to add roles the result is \<open>False\<close>, and the one log entry carries the
  message of the error; the identifier \<open>u1\<close> does not occur in it.
\<close>

theorem provision_error_log_counterexample:
  "fst (provisionUserRoles no_adding ''u1'' (Some [''A'']) None bot0) = Inr False
   \<and> logged (snd (provisionUserRoles no_adding ''u1'' (Some [''A'']) None bot0))
       = [LogError ''AUTH_PROVISIONING_FAILURE: Missing Permissions'']
   \<and> \<not> sublist ''u1'' ''AUTH_PROVISIONING_FAILURE: Missing Permissions''"
proof -
  have "\<not> sublist ''u1'' ''AUTH_PROVISIONING_FAILURE: Missing Permissions''"
    by (simp add: sublist_code)
  then show ?thesis
    by (simp add: provision_defs sample_defs)
qed

text \<open>
  Claim C3, amended: \<open>Provision\<close> never throws, it always returns a boolean, and its own
  \<open>catch\<close> is never entered: the call is its \<open>try\<close> block. When the
  \<open>try\<close> block of the assignment throws, the result is \<open>False\<close>, and what is left is the
  state at the throw with one more error entry, \<open>AUTH_PROVISIONING_FAILURE\<close> followed by
  the message of the error. When the assignment is skipped or succeeds and the \<open>try\<close> block
  of the revocation throws, the result is \<open>False\<close> and the entry is
  \<open>AUTH_REVOKE_FAILURE\<close> followed by the message of the error. The entry
  \<open>FAILED_GRPC_PROVISION\<close>, the only one that names the user, is never written, since the
  two phases catch their own errors.
\<close>

theorem provision_returns_and_reports_failure:
  "(\<exists>r. fst (provisionUserRoles P i assign revoke b) = Inr r)
   \<and> provisionUserRoles P i assign revoke b = provisionUserRoles_try P i assign revoke b
   \<and> (\<forall>a as e b1. assign = Some (a # as) \<and> assignUserRoles_try P i (a # as) b = (Inl e, b1) \<longrightarrow>
         provisionUserRoles P i assign revoke b
           = (Inr False, log_error (''AUTH_PROVISIONING_FAILURE: '' @ err_message e) b1))
   \<and> (\<forall>e b1 b2. assign_step P i assign b = (Inr True, b1) \<and> revoke = Some [''Symbol(all)'']
           \<and> revokeUserRoles_try P i None b1 = (Inl e, b2) \<longrightarrow>
         provisionUserRoles P i assign revoke b
           = (Inr False, log_error (''AUTH_REVOKE_FAILURE: '' @ err_message e) b2))
   \<and> (\<forall>r rs e b1 b2. assign_step P i assign b = (Inr True, b1) \<and> revoke = Some (r # rs)
           \<and> r # rs \<noteq> [''Symbol(all)'']
           \<and> revokeUserRoles_try P i (Some (r # rs)) b1 = (Inl e, b2) \<longrightarrow>
         provisionUserRoles P i assign revoke b
           = (Inr False, log_error (''AUTH_REVOKE_FAILURE: '' @ err_message e) b2))"
proof (intro conjI allI impI)
  show "\<exists>r. fst (provisionUserRoles P i assign revoke b) = Inr r"
    using provisionUserRoles_try_returns [of P i assign revoke b]
    by (simp add: provisionUserRoles_is_try)
next
  show "provisionUserRoles P i assign revoke b = provisionUserRoles_try P i assign revoke b"
    by (rule provisionUserRoles_is_try)
next
  fix a as e b1
  assume "assign = Some (a # as) \<and> assignUserRoles_try P i (a # as) b = (Inl e, b1)"
  then show "provisionUserRoles P i assign revoke b
      = (Inr False, log_error (''AUTH_PROVISIONING_FAILURE: '' @ err_message e) b1)"
    by (simp add: provisionUserRoles_is_try provisionUserRoles_try_def assign_step_def
        revoke_step_def and_await_def assignUserRoles_def split: option.split list.split)
next
  fix e b1 b2
  assume "assign_step P i assign b = (Inr True, b1) \<and> revoke = Some [''Symbol(all)'']
    \<and> revokeUserRoles_try P i None b1 = (Inl e, b2)"
  then show "provisionUserRoles P i assign revoke b
      = (Inr False, log_error (''AUTH_REVOKE_FAILURE: '' @ err_message e) b2)"
    by (simp add: provisionUserRoles_is_try provisionUserRoles_try_def
        revoke_step_def and_await_def revokeUserRoles_def)
next
  fix r rs e b1 b2
  assume "assign_step P i assign b = (Inr True, b1) \<and> revoke = Some (r # rs)
    \<and> r # rs \<noteq> [''Symbol(all)'']
    \<and> revokeUserRoles_try P i (Some (r # rs)) b1 = (Inl e, b2)"
  then show "provisionUserRoles P i assign revoke b
      = (Inr False, log_error (''AUTH_REVOKE_FAILURE: '' @ err_message e) b2)"
    by (auto simp add: provisionUserRoles_is_try provisionUserRoles_try_def
        revoke_step_def and_await_def revokeUserRoles_def)
qed


theorem provision_returns_and_reports_failure_witness:
  "provisionUserRoles no_adding ''u1'' (Some [''A'']) (Some [''C'']) bot0
     = (Inr False, log_error ''AUTH_PROVISIONING_FAILURE: Missing Permissions''
          (issue (AddRoles ''u1'' [roleA] reason) bot0))
   \<and> provisionUserRoles calm ''ghost'' None (Some [''Symbol(all)'']) bot0
     = (Inr False, log_error ''AUTH_REVOKE_FAILURE: Cannot read property roles of null'' bot0)
   \<and> provisionUserRoles no_removing ''u1'' None (Some [''C'']) bot0
     = (Inr False, log_error ''AUTH_REVOKE_FAILURE: Missing Permissions''
          (issue (RemoveRoles ''u1'' [roleC] reason) bot0))"
proof -
  have a: "assignUserRoles_try no_adding ''u1'' [''A''] bot0
      = (Inl (Rejected ''Missing Permissions''), issue (AddRoles ''u1'' [roleA] reason) bot0)"
    by (simp add: assignUserRoles_try_def find_member_def Let_def sample_defs)
  have s: "assign_step calm ''ghost'' None bot0 = (Inr True, bot0)"
    "assign_step no_removing ''u1'' None bot0 = (Inr True, bot0)"
    by (simp_all add: assign_step_def)
  have r1: "revokeUserRoles_try calm ''ghost'' None bot0
      = (Inl (TypeError ''Cannot read property roles of null''), bot0)"
    by (simp add: revokeUserRoles_try_def rolesToRevoke_def find_member_def Let_def sample_defs)
  have r2: "revokeUserRoles_try no_removing ''u1'' (Some [''C'']) bot0
      = (Inl (Rejected ''Missing Permissions''), issue (RemoveRoles ''u1'' [roleC] reason) bot0)"
    by (simp add: revokeUserRoles_try_def rolesToRevoke_def find_member_def Let_def sample_defs)
  have n: "[''C''] \<noteq> [''Symbol(all)'']"
    by simp
  have "provisionUserRoles no_adding ''u1'' (Some [''A'']) (Some [''C'']) bot0
     = (Inr False, log_error (''AUTH_PROVISIONING_FAILURE: '' @ err_message (Rejected ''Missing Permissions''))
          (issue (AddRoles ''u1'' [roleA] reason) bot0))"
    using provision_returns_and_reports_failure [of no_adding "''u1''" "Some [''A'']" "Some [''C'']" bot0] a
    by blast
  moreover have "provisionUserRoles calm ''ghost'' None (Some [''Symbol(all)'']) bot0
     = (Inr False, log_error (''AUTH_REVOKE_FAILURE: '' @ err_message (TypeError ''Cannot read property roles of null'')) bot0)"
    using provision_returns_and_reports_failure [of calm "''ghost''" None "Some [''Symbol(all)'']" bot0] s(1) r1
    by blast
  moreover have "provisionUserRoles no_removing ''u1'' None (Some [''C'']) bot0
     = (Inr False, log_error (''AUTH_REVOKE_FAILURE: '' @ err_message (Rejected ''Missing Permissions''))
          (issue (RemoveRoles ''u1'' [roleC] reason) bot0))"
    using provision_returns_and_reports_failure [of no_removing "''u1''" None "Some [''C'']" bot0] s(2) r2 n
    by blast
  ultimately show ?thesis
    by simp
qed

text \<open>
  Claim C9, as the specification states it: every \<open>Provision\<close> call for a member whose
  list to revoke is the sentinel alone strips every role the member holds. On a platform
  that refuses to add roles, the call with the role A to assign fails in the assignment and
  never reaches the revocation: no removal is issued and the member keeps \<open>@everyone\<close> and
  C. And when the revocation does run, the member keeps \<open>@everyone\<close>.
\<close>

theorem revoke_all_counterexample:
  "member_of ''u1'' bot1 = Some u1e
   \<and> roles u1e = [everyone, roleC]
   \<and> fst (provisionUserRoles no_adding ''u1'' (Some [''A'']) (Some [''Symbol(all)'']) bot1) = Inr False
   \<and> removals (snd (provisionUserRoles no_adding ''u1'' (Some [''A'']) (Some [''Symbol(all)'']) bot1)) = []
   \<and> held_roles ''u1'' (snd (provisionUserRoles no_adding ''u1'' (Some [''A'']) (Some [''Symbol(all)'']) bot1))
       = [everyone, roleC]
   \<and> fst (provisionUserRoles calm ''u1'' None (Some [''Symbol(all)'']) bot1) = Inr True
   \<and> held_roles ''u1'' (snd (provisionUserRoles calm ''u1'' None (Some [''Symbol(all)'']) bot1))
       = [everyone]"
  by (simp add: provision_defs sample_defs)

text \<open>
  Claim C9, amended: when the list to revoke is the sentinel alone and the assignment is
  skipped or has succeeded, the revocation issues one role removal for a member of the
  guild, which names every role the member holds at that moment; once the platform has
  accepted it the member is still in the guild and holds no role but \<open>@everyone\<close>.
\<close>

theorem revoke_all_strips_every_role:
  assumes "assign_step P i assign b = (Inr True, b1)"
    and "p_guild b1 = Some g" and "find_member i g = Some m"
    and "removeRoles_err P m (roles m) = None"
  shows "fst (provisionUserRoles P i assign (Some [''Symbol(all)'']) b) = Inr True
     \<and> calls (snd (provisionUserRoles P i assign (Some [''Symbol(all)'']) b))
          = calls b1 @ [RemoveRoles i (roles m) reason]
     \<and> member_of i (snd (provisionUserRoles P i assign (Some [''Symbol(all)'']) b))
          = Some (m\<lparr>roles := filter (is_everyone g) (roles m)\<rparr>)"
proof -
  have "provisionUserRoles P i assign (Some [''Symbol(all)'']) b = revokeUserRoles P i None b1"
    using assms(1)
    by (simp add: provisionUserRoles_is_try provisionUserRoles_try_def revoke_step_def and_await_def)
  then show ?thesis
    using revoke_all_ok [OF assms(2) assms(3) assms(4)] by simp
qed

theorem revoke_all_strips_every_role_witness:
  "fst (provisionUserRoles calm ''u1'' None (Some [''Symbol(all)'']) bot1) = Inr True
   \<and> calls (snd (provisionUserRoles calm ''u1'' None (Some [''Symbol(all)'']) bot1))
        = [RemoveRoles ''u1'' [everyone, roleC] reason]
   \<and> member_of ''u1'' (snd (provisionUserRoles calm ''u1'' None (Some [''Symbol(all)'']) bot1))
        = Some (u1e\<lparr>roles := [everyone]\<rparr>)"
proof -
  have a: "assign_step calm ''u1'' None bot1 = (Inr True, bot1)"
    by (simp add: assign_step_def)
  have g: "p_guild bot1 = Some guild1"
    by (simp add: bot1_def)
  have m: "find_member ''u1'' guild1 = Some u1e"
    by (simp add: find_member_def guild1_def u1e_def)
  have ok: "removeRoles_err calm u1e (roles u1e) = None"
    by (simp add: calm_def)
  have v: "roles u1e = [everyone, roleC]" "calls bot1 = []"
    "is_everyone guild1 everyone" "\<not> is_everyone guild1 roleC"
    by (simp_all add: u1e_def bot1_def new_Bot_def is_everyone_def guild1_def everyone_def roleC_def)
  show ?thesis
    using revoke_all_strips_every_role [OF a g m ok] by (simp add: v)
qed

text \<open>
  Claim C10: with a list to assign and a list to revoke, neither empty, a failed assignment
  ends the call. The result is \<open>False\<close>, the state is the one the assignment left: no role
  removal is issued and no \<open>AUTH_REVOKE\<close> entry is sent to the log channel.
\<close>

theorem failed_assignment_skips_revocation:
  assumes "fst (assignUserRoles P i (a # as) b) = Inr False"
  shows "provisionUserRoles P i (Some (a # as)) (Some (r # rs)) b
           = (Inr False, snd (assignUserRoles P i (a # as) b))
     \<and> removals (snd (provisionUserRoles P i (Some (a # as)) (Some (r # rs)) b)) = removals b
     \<and> revoke_entries (snd (provisionUserRoles P i (Some (a # as)) (Some (r # rs)) b)) = revoke_entries b"
proof -
  obtain b1 where s: "assignUserRoles P i (a # as) b = (Inr False, b1)"
    using assms by (cases "assignUserRoles P i (a # as) b") auto
  have p: "provisionUserRoles P i (Some (a # as)) (Some (r # rs)) b = (Inr False, b1)"
    by (simp add: provisionUserRoles_is_try provisionUserRoles_try_def assign_step_def
        revoke_step_def and_await_def s)
  have "removals b1 = removals b" and "revoke_entries b1 = revoke_entries b"
    using assignUserRoles_removals [of P i "a # as" b]
      assignUserRoles_revoke_entries [of P i "a # as" b] by (simp_all add: s)
  then show ?thesis by (simp add: p s)
qed

theorem failed_assignment_skips_revocation_witness:
  "provisionUserRoles no_adding ''u1'' (Some [''A'']) (Some [''C'']) bot0
     = (Inr False, snd (assignUserRoles no_adding ''u1'' [''A''] bot0))
   \<and> calls (snd (provisionUserRoles no_adding ''u1'' (Some [''A'']) (Some [''C'']) bot0))
       = [AddRoles ''u1'' [roleA] reason]
   \<and> held_roles ''u1'' (snd (provisionUserRoles no_adding ''u1'' (Some [''A'']) (Some [''C'']) bot0))
       = [roleC]
   \<and> removals (snd (provisionUserRoles no_adding ''u1'' (Some [''A'']) (Some [''C'']) bot0)) = []
   \<and> revoke_entries (snd (provisionUserRoles no_adding ''u1'' (Some [''A'']) (Some [''C'']) bot0)) = []"
proof -
  have h: "fst (assignUserRoles no_adding ''u1'' [''A''] bot0) = Inr False"
    by (simp add: provision_defs sample_defs)
  have p: "provisionUserRoles no_adding ''u1'' (Some [''A'']) (Some [''C'']) bot0
     = (Inr False, snd (assignUserRoles no_adding ''u1'' [''A''] bot0))"
    using failed_assignment_skips_revocation [OF h, of "''C''" "[]"] by (rule conjunct1)
  have c: "calls (snd (assignUserRoles no_adding ''u1'' [''A''] bot0)) = [AddRoles ''u1'' [roleA] reason]"
    by (simp add: provision_defs sample_defs)
  have r: "held_roles ''u1'' (snd (assignUserRoles no_adding ''u1'' [''A''] bot0)) = [roleC]"
    by (simp add: provision_defs sample_defs)
  have z: "removals (snd (assignUserRoles no_adding ''u1'' [''A''] bot0)) = []"
    "revoke_entries (snd (assignUserRoles no_adding ''u1'' [''A''] bot0)) = []"
    by (simp_all add: provision_defs sample_defs)
  show ?thesis
    by (simp add: p c r z)
qed

section \<open>The dispatcher: properties\<close>

lemmas dispatch_defs = onMessage_def found_def found_try_def not_found_def not_found_try_def
  msg_delete_def author_send_def logCommandUse_def origin_def startsWith_def js_incr_def
  issue_def log_error_def log_cmd_def addCommand_def Let_def

lemma split_sp_startsWith:
  "split_sp s = cmd # args \<Longrightarrow> startsWith cmd ''!'' = startsWith s ''!''"
  by (cases s) (auto simp: startsWith_def split: if_splits list.splits)

lemma split_sp_not_Nil: "split_sp s \<noteq> []"
  by (cases s) (auto split: list.splits)

lemma found_REQUEST_COUNT: "REQUEST_COUNT (found P msg cmd args fn b) = REQUEST_COUNT b"
  by (simp add: found_def found_try_def msg_delete_def logCommandUse_def issue_def log_error_def
      log_cmd_def Let_def split: option.split sum.split)

lemma not_found_REQUEST_COUNT: "REQUEST_COUNT (not_found P msg cmd b) = REQUEST_COUNT b"
  by (simp add: not_found_def not_found_try_def msg_delete_def author_send_def issue_def
      log_error_def split: option.split)

lemma found_exited:
  "exited (found P msg cmd args fn b)
     = (if (msg_guild msg = None \<or> delete_err P msg = None) \<and> cmd = ''!shutdown''
           \<and> fn (case msg_guild msg of Some g \<Rightarrow> Some g | None \<Rightarrow> p_guild b) msg args
               = Inr ''shutdown successful''
        then Some 0 else exited b)"
  by (auto simp add: found_def found_try_def msg_delete_def logCommandUse_def issue_def log_error_def
      log_cmd_def origin_def Let_def split: option.split sum.split)

lemma not_found_exited: "exited (not_found P msg cmd b) = exited b"
  by (simp add: not_found_def not_found_try_def msg_delete_def author_send_def issue_def
      log_error_def split: option.split)

lemma not_found_calls:
  "calls (not_found P msg cmd b)
     = calls b @ (if delete_err P msg = None
                  then [Delete msg, Send (author_username msg) (notice cmd)] else [Delete msg])"
  by (simp add: not_found_def not_found_try_def msg_delete_def author_send_def issue_def
      log_error_def split: option.split)

lemma not_found_logged:
  "logged (not_found P msg cmd b)
     = logged b @ [LogError (if delete_err P msg = None \<and> send_err P msg (notice cmd) = None
                             then ''NO_COMMAND ('' @ author_username msg @ '') - '' @ cmd
                             else ''MESSAGE_DELETE'')]"
  by (simp add: not_found_def not_found_try_def msg_delete_def author_send_def issue_def
      log_error_def split: option.split)

text \<open>
  Claim C4, as the specification states it: for a message with the marker and an unknown
  keyword the notice is sent and an error is logged even when the deletion fails, and the
  message is deleted only in a shared channel. On a platform that refuses the deletion the
  dispatcher issues the deletion of the guild message and nothing else, and logs
  \<open>MESSAGE_DELETE\<close>: no notice is sent. The deletion is also issued for a private message.
\<close>

theorem unknown_command_counterexample:
  "p_commands bot0 ''nope'' = None
   \<and> delete_err no_deleting nope_gld = Some ''Missing Access''
   \<and> calls (onMessage no_deleting nope_gld bot0) = [Delete nope_gld]
   \<and> logged (onMessage no_deleting nope_gld bot0) = [LogError ''MESSAGE_DELETE'']
   \<and> msg_guild nope_pm = None
   \<and> calls (onMessage calm nope_pm bot0) = [Delete nope_pm, Send ''alice'' (notice ''!nope'')]"
  by (simp add: dispatch_defs sample_defs)

text \<open>
  Claim C4, amended: for a message of a user in a guild that begins with the marker and
  whose keyword has no handler, the dispatcher issues the deletion of the message; the
  notice is sent to the author only when the deletion has succeeded; the error entry
  \<open>NO_COMMAND\<close> is logged when both the deletion and the notice have succeeded, and the
  error entry \<open>MESSAGE_DELETE\<close> is logged instead when either has failed.
\<close>

theorem unknown_command_in_guild:
  assumes "\<not> author_bot msg" and "split_sp (content msg) = cmd # args" and "startsWith cmd ''!''"
    and "p_commands b (drop 1 cmd) = None" and "msg_guild msg = Some g"
  shows "calls (onMessage P msg b)
       = calls b @ (if delete_err P msg = None
                    then [Delete msg, Send (author_username msg) (notice cmd)] else [Delete msg])
     \<and> logged (onMessage P msg b)
       = logged b @ [LogError (if delete_err P msg = None \<and> send_err P msg (notice cmd) = None
                               then ''NO_COMMAND ('' @ author_username msg @ '') - '' @ cmd
                               else ''MESSAGE_DELETE'')]"
  using assms by (simp add: onMessage_def Let_def not_found_calls not_found_logged)

theorem unknown_command_in_guild_witness:
  "calls (onMessage calm nope_gld bot0) = [Delete nope_gld, Send ''alice'' (notice ''!nope'')]
   \<and> logged (onMessage calm nope_gld bot0) = [LogError ''NO_COMMAND (alice) - !nope'']"
proof -
  have m: "\<not> author_bot nope_gld" "split_sp (content nope_gld) = [''!nope'']"
    "msg_guild nope_gld = Some guild0" "author_username nope_gld = ''alice''"
    by (simp_all add: nope_gld_def)
  have s: "startsWith ''!nope'' ''!''"
    by (simp add: startsWith_def)
  have c: "p_commands bot0 (drop 1 ''!nope'') = None"
    by (simp add: bot0_def new_Bot_def)
  have p: "delete_err calm nope_gld = None" "send_err calm nope_gld (notice ''!nope'') = None"
    by (simp_all add: calm_def)
  have z: "calls bot0 = []" "logged bot0 = []"
    by (simp_all add: bot0_def new_Bot_def)
  show ?thesis
    using unknown_command_in_guild [OF m(1) m(2) s c m(3), of calm] by (simp add: p z m(4))
qed

text \<open>
  Claim C5, as the specification states it: the counter is incremented exactly when a
  handler completes, and neither for an unknown keyword nor for a handler that fails. On
  the sample bot, whose registry has no \<open>nope\<close>, the message \<open>!nope\<close> takes the counter
  from 0 to 1, and so does \<open>!shutdown\<close> with a handler that fails.
\<close>

theorem request_count_counterexample:
  "p_commands bot0 ''nope'' = None
   \<and> REQUEST_COUNT bot0 = 0
   \<and> REQUEST_COUNT (onMessage calm nope_pm bot0) = 1
   \<and> p_commands (addCommand ''shutdown'' ''turns the bot off'' broken None bot0) ''shutdown'' = Some broken
   \<and> broken None shutdown_pm [] = Inl (Rejected ''boom'')
   \<and> REQUEST_COUNT (onMessage calm shutdown_pm (addCommand ''shutdown'' ''turns the bot off'' broken None bot0)) = 1"
  by (simp add: dispatch_defs sample_defs)

text \<open>
  Claim C5, amended: the counter is incremented exactly when a message that is not a bot's
  begins with the marker \<open>!\<close>, before the keyword is looked up, whether or not a handler
  is found and whether or not it succeeds; any other message leaves the counter as it is.
\<close>

theorem request_count_counts_marked_messages:
  "REQUEST_COUNT (onMessage P msg b)
     = (if \<not> author_bot msg \<and> startsWith (content msg) ''!''
        then js_incr (REQUEST_COUNT b) else REQUEST_COUNT b)"
proof (cases "author_bot msg")
  case True
  then show ?thesis by (simp add: onMessage_def)
next
  case False
  obtain cmd args where s: "split_sp (content msg) = cmd # args"
    using split_sp_not_Nil [of "content msg"] by (cases "split_sp (content msg)") auto
  show ?thesis
    using False split_sp_startsWith [OF s]
    by (simp add: onMessage_def s Let_def found_REQUEST_COUNT not_found_REQUEST_COUNT
        split: option.split)
qed

text \<open>
  Claim C6: a message makes the process exit (with status 0) exactly when it is a user's,
  its first word is \<open>!shutdown\<close>, the keyword \<open>shutdown\<close> has a handler, the handler is
  reached (the message is private, or its deletion succeeds) and returns exactly
  \<open>shutdown successful\<close>. Any other outcome of the handler, and any other first word
  whatever its handler returns, leaves the process running.
\<close>

theorem shutdown_exits_iff_sentinel:
  assumes "exited b = None"
  shows "exited (onMessage P msg b)
     = (if \<not> author_bot msg
           \<and> (\<exists>args fn. split_sp (content msg) = ''!shutdown'' # args
                 \<and> p_commands b ''shutdown'' = Some fn
                 \<and> (msg_guild msg = None \<or> delete_err P msg = None)
                 \<and> fn (case msg_guild msg of Some g \<Rightarrow> Some g | None \<Rightarrow> p_guild b) msg args
                     = Inr ''shutdown successful'')
        then Some 0 else None)"
proof (cases "author_bot msg")
  case True
  then show ?thesis using assms by (simp add: onMessage_def)
next
  case False
  obtain cmd args where s: "split_sp (content msg) = cmd # args"
    using split_sp_not_Nil [of "content msg"] by (cases "split_sp (content msg)") auto
  show ?thesis
  proof (cases "cmd = ''!shutdown''")
    case True
    then show ?thesis
      using False assms
      by (auto simp add: onMessage_def s Let_def startsWith_def found_exited not_found_exited
          split: option.split)
  next
    case ne: False
    then show ?thesis
      using False assms
      by (auto simp add: onMessage_def s Let_def found_exited not_found_exited
          split: option.split)
  qed
qed


theorem shutdown_exits_iff_sentinel_witness:
  "exited (onMessage calm shutdown_pm (addCommand ''shutdown'' ''turns the bot off'' shutdown_ok None bot0)) = Some 0
   \<and> exited (onMessage calm shutdown_pm (addCommand ''shutdown'' ''turns the bot off'' pong None bot0)) = None"
proof -
  have e: "exited (addCommand ''shutdown'' ''turns the bot off'' shutdown_ok None bot0) = None"
    "exited (addCommand ''shutdown'' ''turns the bot off'' pong None bot0) = None"
    by (simp_all add: addCommand_def bot0_def new_Bot_def)
  have m: "\<not> author_bot shutdown_pm" "split_sp (content shutdown_pm) = [''!shutdown'']"
    "msg_guild shutdown_pm = None"
    by (simp_all add: shutdown_pm_def)
  have c: "p_commands (addCommand ''shutdown'' ''turns the bot off'' shutdown_ok None bot0) ''shutdown''
      = Some shutdown_ok"
    "p_commands (addCommand ''shutdown'' ''turns the bot off'' pong None bot0) ''shutdown'' = Some pong"
    by (simp_all add: addCommand_def)
  have h: "shutdown_ok g shutdown_pm [] = Inr ''shutdown successful''"
    "pong g shutdown_pm [] \<noteq> Inr ''shutdown successful''" for g
    by (simp_all add: shutdown_ok_def pong_def)
  show ?thesis
    using shutdown_exits_iff_sentinel [OF e(1), of calm shutdown_pm]
      shutdown_exits_iff_sentinel [OF e(2), of calm shutdown_pm]
    by (simp add: m c h)
qed

section \<open>The registry and the role query: properties\<close>

lemma register_commands:
  "p_commands (register b r) k = (if fst r = k then Some (stored r) else p_commands b k)"
  by (cases r) (auto simp add: register_def stored_def addCommand_def)

lemma foldl_register_commands:
  "p_commands (foldl register b regs) k
     = (if filter (\<lambda>r. fst r = k) regs = [] then p_commands b k
        else Some (stored (last (filter (\<lambda>r. fst r = k) regs))))"
proof (induction regs rule: rev_induct)
  case Nil
  then show ?case by simp
next
  case (snoc r regs)
  then show ?case by (simp add: register_commands)
qed

text \<open>
  Claim C7: after any sequence of \<open>addCommand\<close> calls on a new bot, looking a keyword up
  gives the handler stored by the last call with that keyword (the action of that call,
  wrapped by its access decorator when it has one), and nothing for a keyword that no call
  had.
\<close>

theorem resolve_last_registration:
  "p_commands (foldl register new_Bot regs) k
     = (if filter (\<lambda>r. fst r = k) regs = [] then None
        else Some (stored (last (filter (\<lambda>r. fst r = k) regs))))"
  by (simp add: foldl_register_commands) (simp add: new_Bot_def)

theorem resolve_last_registration_witness:
  "p_commands (foldl register new_Bot
      [(''ping'', ''d1'', pong, None), (''shutdown'', ''d2'', broken, None),
       (''shutdown'', ''d3'', shutdown_ok, None), (''config'', ''d4'', pong, Some nobody)]) ''shutdown''
     = Some shutdown_ok
   \<and> p_commands (foldl register new_Bot
      [(''ping'', ''d1'', pong, None), (''shutdown'', ''d2'', broken, None),
       (''shutdown'', ''d3'', shutdown_ok, None), (''config'', ''d4'', pong, Some nobody)]) ''config''
     = Some (prov_apply nobody pong)
   \<and> p_commands (foldl register new_Bot
      [(''ping'', ''d1'', pong, None), (''shutdown'', ''d2'', broken, None),
       (''shutdown'', ''d3'', shutdown_ok, None), (''config'', ''d4'', pong, Some nobody)]) ''help''
     = None"
proof -
  let ?regs = "[(''ping'', ''d1'', pong, None), (''shutdown'', ''d2'', broken, None),
       (''shutdown'', ''d3'', shutdown_ok, None), (''config'', ''d4'', pong, Some nobody)]"
  have f: "filter (\<lambda>r. fst r = ''shutdown'') ?regs
      = [(''shutdown'', ''d2'', broken, None), (''shutdown'', ''d3'', shutdown_ok, None)]"
    "filter (\<lambda>r. fst r = ''config'') ?regs = [(''config'', ''d4'', pong, Some nobody)]"
    "filter (\<lambda>r. fst r = ''help'') ?regs = []"
    by simp_all
  have "p_commands (foldl register new_Bot ?regs) ''shutdown'' = Some shutdown_ok"
    by (simp only: resolve_last_registration [of ?regs "''shutdown''"] f) (simp add: stored_def)
  moreover have "p_commands (foldl register new_Bot ?regs) ''config'' = Some (prov_apply nobody pong)"
    by (simp only: resolve_last_registration [of ?regs "''config''"] f) (simp add: stored_def)
  moreover have "p_commands (foldl register new_Bot ?regs) ''help'' = None"
    by (simp only: resolve_last_registration [of ?regs "''help''"] f) simp
  ultimately show ?thesis
    by blast
qed



end
